theory Spec2Isabelle
  imports Complex_Main
begin

section \<open>Sumbawa Digital Ranch: geofence, simulation and heatmap services\<close>

text \<open>
  A shallow embedding of the Python services of the ranch backend. Python strings are
  modelled as \<open>string\<close>, exceptions as the left summand of a sum type. A Python float
  is a double, modelled by the real number it denotes (no NaN, no infinity);
  comparisons of floats are exact. Where the text that a function returns depends on how
  its arithmetic rounds (\<open>_estimate_return_time\<close>, \<open>compare_periods\<close>), every
  operation is rounded to the nearest double as Python does; the arithmetic of the
  other functions is written over the reals, and no statement below depends on its
  rounding. The PostGIS functions the code calls through the database session
  (\<open>ST_Within\<close>, \<open>ST_Distance\<close>, \<open>ST_SnapToGrid\<close>) are not part of the
  repository and are parameters of the functions that use them.
\<close>

subsection \<open>Double-precision arithmetic\<close>

text \<open>
  Rounding of a real number to the nearest integer, a tie going to the even one.
\<close>

definition round_half_even :: "real \<Rightarrow> int" where
  "round_half_even x =
     (let f = \<lfloor>x\<rfloor>; r = x - of_int f
      in if r < 1 / 2 then f else if r > 1 / 2 then f + 1
         else if even f then f else f + 1)"

text \<open>
  The double nearest to a real number: 53 significant bits, a tie going to the even
  significand. A number \<open>x \<noteq> 0\<close> with \<open>2 ^ k \<le> |x| < 2 ^ (k + 1)\<close> is rounded to a
  multiple of \<open>2 ^ (k - 52)\<close>. The exponent is not bounded here: the results of the
  functions below are far from the overflow threshold, and the only results in the
  subnormal range are return times that the minimum of 10 minutes replaces.
\<close>

definition round_double :: "real \<Rightarrow> real" where
  "round_double x =
     (if x = 0 then 0
      else (let e = \<lfloor>log 2 \<bar>x\<bar>\<rfloor> - 52
            in of_int (round_half_even (x / 2 powi e)) * 2 powi e))"

text \<open>Python's \<open>x / y\<close> and \<open>x * y\<close> on floats (and \<open>/\<close> on two ints).\<close>

definition float_div :: "real \<Rightarrow> real \<Rightarrow> real" where
  "float_div x y = round_double (x / y)"

definition float_mul :: "real \<Rightarrow> real \<Rightarrow> real" where
  "float_mul x y = round_double (x * y)"

subsection \<open>Health status (models/cattle.py, HealthStatusEnum)\<close>

definition SEHAT :: string where
  "SEHAT = ''Sehat''"

definition PERLU_PERHATIAN :: string where
  "PERLU_PERHATIAN = ''Perlu Perhatian''"

definition SAKIT :: string where
  "SAKIT = ''Sakit''"

subsection \<open>Violation severity (services/geofence_service.py)\<close>

text \<open>\<open>GeofenceService._calculate_violation_severity\<close>, branch by branch.\<close>

definition calculate_violation_severity :: "real \<Rightarrow> string \<Rightarrow> string" where
  "calculate_violation_severity distance_meters health_status =
     (let base_severity =
            (if distance_meters < 100 then ''LOW''
             else if distance_meters < 500 then ''MEDIUM''
             else if distance_meters < 1000 then ''HIGH''
             else ''CRITICAL'')
      in if health_status = ''Sakit'' then
           (if base_severity = ''LOW'' then ''MEDIUM''
            else if base_severity = ''MEDIUM'' then ''HIGH''
            else ''CRITICAL'')
         else if health_status = ''Perlu Perhatian'' then
           (if base_severity = ''LOW'' then ''LOW''
            else if base_severity = ''MEDIUM'' then ''HIGH''
            else ''CRITICAL'')
         else base_severity)"

text \<open>
  The severity rule in the words of the specification: a level from the distance table,
  then an escalation that depends on the health category.
\<close>

datatype severity = LOW | MEDIUM | HIGH | CRITICAL

datatype health = Healthy | NeedsAttention | Sick

fun health_name :: "health \<Rightarrow> string" where
  "health_name Healthy = ''Sehat''"
| "health_name NeedsAttention = ''Perlu Perhatian''"
| "health_name Sick = ''Sakit''"

fun severity_name :: "severity \<Rightarrow> string" where
  "severity_name LOW = ''LOW''"
| "severity_name MEDIUM = ''MEDIUM''"
| "severity_name HIGH = ''HIGH''"
| "severity_name CRITICAL = ''CRITICAL''"

definition spec_base_severity :: "real \<Rightarrow> severity" where
  "spec_base_severity d =
     (if d < 100 then LOW else if d < 500 then MEDIUM else if d < 1000 then HIGH else CRITICAL)"

fun spec_escalate :: "health \<Rightarrow> severity \<Rightarrow> severity" where
  "spec_escalate Sick LOW = MEDIUM"
| "spec_escalate Sick MEDIUM = HIGH"
| "spec_escalate Sick HIGH = CRITICAL"
| "spec_escalate Sick CRITICAL = CRITICAL"
| "spec_escalate NeedsAttention LOW = LOW"
| "spec_escalate NeedsAttention MEDIUM = HIGH"
| "spec_escalate NeedsAttention HIGH = CRITICAL"
| "spec_escalate NeedsAttention CRITICAL = CRITICAL"
| "spec_escalate Healthy s = s"

subsection \<open>Violation alerts (services/geofence_service.py)\<close>

text \<open>
  The \<open>violation_data\<close> dictionary, restricted to the keys the alert functions read;
  \<open>None\<close> is an absent key, for which \<open>dict.get\<close> supplies its default.
\<close>

record violation_data =
  vd_severity :: "string option"
  vd_health_status :: "string option"
  vd_violation_distance_meters :: "real option"

definition dict_get :: "'a option \<Rightarrow> 'a \<Rightarrow> 'a" where
  "dict_get entry dflt = (case entry of None \<Rightarrow> dflt | Some v \<Rightarrow> v)"

text \<open>\<open>GeofenceService._get_required_actions\<close>.\<close>

definition get_required_actions :: "violation_data \<Rightarrow> string list" where
  "get_required_actions violation_data =
     (let severity = dict_get (vd_severity violation_data) ''LOW'';
          health_status = dict_get (vd_health_status violation_data) ''Sehat'';
          distance = dict_get (vd_violation_distance_meters violation_data) 0;
          actions0 = [''Locate and verify cattle position'',
                      ''Check for physical injuries or distress''];
          actions1 =
            (if distance > 1000 then
               actions0 @ [''Deploy search team immediately'',
                           ''Notify ranch manager'',
                           ''Check nearby roads or dangerous areas'']
             else if distance > 500 then
               actions0 @ [''Send ranch hand to retrieve'',
                           ''Monitor movement pattern'']
             else
               actions0 @ [''Guide cattle back to geofenced area''])
      in if health_status = ''Sakit'' then
           (''URGENT: Sick animal requires immediate attention'' # actions1)
             @ [''Contact veterinarian if condition worsens'']
         else if health_status = ''Perlu Perhatian'' then
           actions1 @ [''Monitor health condition closely'',
                       ''Provide additional care if needed'']
         else actions1)"

text \<open>
  Python's \<open>int(x)\<close> on a float truncates toward zero; \<open>x // y\<close> and \<open>x % y\<close> on
  floats are the floored quotient and its remainder (here only for \<open>y = 60\<close> and
  \<open>60 \<le> x \<le> 240\<close>, where both are computed without rounding);
  \<open>f"{n}"\<close> on an int prints its decimal digits.
\<close>

definition py_int :: "real \<Rightarrow> int" where
  "py_int x = (if 0 \<le> x then \<lfloor>x\<rfloor> else \<lceil>x\<rceil>)"











subsection \<open>Entities (models/cattle.py, models/geofence.py)\<close>

text \<open>
  A raised \<open>ValueError\<close> with its message; where the source interpolates a value into
  the message the text is given without it. Timestamps are microseconds since the epoch,
  and the clock reading \<open>datetime.utcnow()\<close> is an argument.
\<close>

datatype error = ValueError string

type_synonym datetime = int

type_synonym point = "real \<times> real"

definition is_space :: "char \<Rightarrow> bool" where
  "is_space c = (c \<in> set [CHR '' '', CHR 0x09, CHR 0x0A, CHR 0x0B, CHR 0x0C, CHR 0x0D])"

definition py_strip :: "string \<Rightarrow> string" where
  "py_strip s = rev (dropWhile is_space (rev (dropWhile is_space s)))"

definition py_upper :: "string \<Rightarrow> string" where
  "py_upper s =
     map (\<lambda>c. let n = (of_char c :: nat)
              in if 97 \<le> n \<and> n \<le> 122 then char_of (n - 32) else c) s"

record cattle =
  c_identifier :: string
  c_age :: int
  c_health_status :: string
  c_location :: "point option"
  c_last_update :: datetime

text \<open>The \<open>@validates\<close> hooks of \<open>Cattle\<close>; there is none for \<open>health_status\<close>.\<close>

definition validate_age :: "int \<Rightarrow> error + int" where
  "validate_age age =
     (if age < 0 \<or> age > 30 then Inl (ValueError ''Age must be between 0 and 30 years'')
      else Inr age)"

definition validate_identifier :: "string \<Rightarrow> error + string" where
  "validate_identifier identifier =
     (if identifier = [] \<or> py_strip identifier = [] then
        Inl (ValueError ''Identifier cannot be empty'')
      else if length identifier > 50 then
        Inl (ValueError ''Identifier cannot exceed 50 characters'')
      else Inr (py_upper (py_strip identifier)))"

text \<open>\<open>Cattle.set_location\<close>; the stored point is (longitude, latitude).\<close>

definition set_location :: "cattle \<Rightarrow> real \<Rightarrow> real \<Rightarrow> datetime \<Rightarrow> error + cattle" where
  "set_location self latitude longitude now =
     (if \<not> (-90 \<le> latitude \<and> latitude \<le> 90) then
        Inl (ValueError ''Latitude must be between -90 and 90 degrees'')
      else if \<not> (-180 \<le> longitude \<and> longitude \<le> 180) then
        Inl (ValueError ''Longitude must be between -180 and 180 degrees'')
      else Inr (self\<lparr>c_location := Some (longitude, latitude), c_last_update := now\<rparr>))"

text \<open>
  \<open>Cattle.get_coordinates\<close>. \<open>func.ST_X(self.location)\<close> builds an SQL function
  expression and sends nothing to the database; \<open>float\<close> applied to such an expression
  raises \<open>TypeError\<close>, for every location. The \<open>except\<close> clause of the method turns
  that into the result \<open>None\<close>.
\<close>

datatype sql_expression = Sql_function string point

definition py_float :: "sql_expression \<Rightarrow> real option" where
  "py_float expression = None"

definition get_coordinates :: "cattle \<Rightarrow> point option" where
  "get_coordinates self =
     (case c_location self of
        None \<Rightarrow> None
      | Some location \<Rightarrow>
         (case py_float (Sql_function ''ST_X'' location) of
            None \<Rightarrow> None
          | Some lng \<Rightarrow>
             (case py_float (Sql_function ''ST_Y'' location) of
                None \<Rightarrow> None
              | Some lat \<Rightarrow> Some (lng, lat))))"

text \<open>\<open>Cattle.__init__\<close>: the assignments in the order of the source.\<close>

definition Cattle_init ::
  "string \<Rightarrow> int \<Rightarrow> string \<Rightarrow> real option \<Rightarrow> real option \<Rightarrow> datetime \<Rightarrow> error + cattle" where
  "Cattle_init identifier age health_status latitude longitude now =
     (case validate_identifier identifier of
        Inl e \<Rightarrow> Inl e
      | Inr identifier' \<Rightarrow>
         (case validate_age age of
            Inl e \<Rightarrow> Inl e
          | Inr age' \<Rightarrow>
             (let self = \<lparr>c_identifier = identifier', c_age = age',
                          c_health_status = health_status,
                          c_location = None, c_last_update = now\<rparr>
              in case (latitude, longitude) of
                   (Some lat, Some lng) \<Rightarrow> set_location self lat lng now
                 | _ \<Rightarrow> Inr self)))"

text \<open>\<open>Cattle.update_health_status\<close>.\<close>

definition update_health_status :: "cattle \<Rightarrow> string \<Rightarrow> datetime \<Rightarrow> error + cattle" where
  "update_health_status self new_status now =
     (let valid_statuses = [SEHAT, PERLU_PERHATIAN, SAKIT]
      in if new_status \<notin> set valid_statuses then
           Inl (ValueError ''Invalid health status'')
         else Inr (self\<lparr>c_health_status := new_status, c_last_update := now\<rparr>))"

text \<open>
  \<open>Geofence\<close>: the boundary is kept as the vertex sequence that the WKT text handed to
  \<open>ST_GeomFromText\<close> lists, in (longitude, latitude) order.
\<close>

record geofence =
  gf_id :: nat
  gf_name :: string
  gf_boundary :: "point list"
  gf_is_active :: bool
  gf_description :: "string option"
  gf_updated_at :: datetime

definition validate_name :: "string \<Rightarrow> error + string" where
  "validate_name name =
     (if name = [] \<or> py_strip name = [] then Inl (ValueError ''Geofence name cannot be empty'')
      else if length name > 200 then
        Inl (ValueError ''Geofence name cannot exceed 200 characters'')
      else Inr (py_strip name))"

text \<open>The validation loop of \<open>set_boundary_from_coordinates\<close>: the first bad point raises.\<close>

fun validate_coordinate_ranges :: "real list list \<Rightarrow> error option" where
  "validate_coordinate_ranges [] = None"
| "validate_coordinate_ranges (point # rest) =
     (if length point \<noteq> 2 then
        Some (ValueError ''Each coordinate must have exactly 2 values (longitude, latitude)'')
      else
        (let lng = point ! 0; lat = point ! 1
         in if \<not> (-180 \<le> lng \<and> lng \<le> 180) then
              Some (ValueError ''Longitude must be between -180 and 180 degrees'')
            else if \<not> (-90 \<le> lat \<and> lat \<le> 90) then
              Some (ValueError ''Latitude must be between -90 and 90 degrees'')
            else validate_coordinate_ranges rest))"

text \<open>\<open>Geofence.set_boundary_from_coordinates\<close>.\<close>

definition set_boundary_from_coordinates ::
  "geofence \<Rightarrow> real list list \<Rightarrow> datetime \<Rightarrow> error + geofence" where
  "set_boundary_from_coordinates self coordinates now =
     (if length coordinates < 3 then
        Inl (ValueError ''Geofence must have at least 3 coordinate points'')
      else
        (case validate_coordinate_ranges coordinates of
           Some e \<Rightarrow> Inl e
         | None \<Rightarrow>
            (let coordinates' =
                   (if hd coordinates \<noteq> last coordinates then coordinates @ [hd coordinates]
                    else coordinates)
             in Inr (self\<lparr>gf_boundary := map (\<lambda>p. (p ! 0, p ! 1)) coordinates',
                          gf_updated_at := now\<rparr>))))"

text \<open>\<open>Geofence.__init__\<close>; the id is the one the database assigns.\<close>

definition Geofence_init ::
  "nat \<Rightarrow> string \<Rightarrow> real list list \<Rightarrow> string option \<Rightarrow> bool \<Rightarrow> datetime \<Rightarrow> error + geofence" where
  "Geofence_init new_id name coordinates description is_active now =
     (case validate_name name of
        Inl e \<Rightarrow> Inl e
      | Inr name' \<Rightarrow>
          set_boundary_from_coordinates
            \<lparr>gf_id = new_id, gf_name = name', gf_boundary = [], gf_is_active = is_active,
             gf_description = description, gf_updated_at = now\<rparr>
            coordinates now)"

text \<open>\<open>Geofence.update_details\<close>.\<close>

definition update_details ::
  "geofence \<Rightarrow> string option \<Rightarrow> string option \<Rightarrow> real list list option \<Rightarrow> datetime
     \<Rightarrow> error + geofence" where
  "update_details self name description coordinates now =
     (case (case name of None \<Rightarrow> Inr self
            | Some n \<Rightarrow> (case validate_name n of Inl e \<Rightarrow> Inl e
                         | Inr n' \<Rightarrow> Inr (self\<lparr>gf_name := n'\<rparr>))) of
        Inl e \<Rightarrow> Inl e
      | Inr self1 \<Rightarrow>
         (let self2 = (case description of None \<Rightarrow> self1
                       | Some d \<Rightarrow> self1\<lparr>gf_description := Some d\<rparr>)
          in case (case coordinates of None \<Rightarrow> Inr self2
                   | Some cs \<Rightarrow> set_boundary_from_coordinates self2 cs now) of
               Inl e \<Rightarrow> Inl e
             | Inr self3 \<Rightarrow> Inr (self3\<lparr>gf_updated_at := now\<rparr>)))"


text \<open>
  The coordinate lists that \<open>set_boundary_from_coordinates\<close> refuses, as the source
  tests them: fewer than three points, a point that is not a pair, a longitude or a
  latitude out of range.
\<close>

definition bad_point :: "real list \<Rightarrow> bool" where
  "bad_point p =
     (length p \<noteq> 2 \<or> \<not> (-180 \<le> p ! 0 \<and> p ! 0 \<le> 180) \<or> \<not> (-90 \<le> p ! 1 \<and> p ! 1 \<le> 90))"

definition refused_ring :: "real list list \<Rightarrow> bool" where
  "refused_ring coordinates = (length coordinates < 3 \<or> list_ex bad_point coordinates)"

definition closed_ring_of :: "real list list \<Rightarrow> point list" where
  "closed_ring_of coordinates =
     (if hd coordinates = last coordinates then map (\<lambda>p. (p ! 0, p ! 1)) coordinates
      else map (\<lambda>p. (p ! 0, p ! 1)) coordinates @ [(hd coordinates ! 0, hd coordinates ! 1)])"


subsection \<open>Per-entity geofence status (services/geofence_service.py)\<close>

text \<open>
  The two queries of the status loop are parameters: \<open>st_within loc boundary\<close> and
  \<open>st_distance loc boundary\<close> stand for
  \<open>db.query(ST_Within(..)).scalar()\<close> and \<open>db.query(ST_Distance(..)).scalar()\<close>.
  \<open>None\<close> is a query that raised; a NULL scalar is falsy in both places the source
  tests it and is represented by \<open>Some False\<close> and \<open>Some 0\<close>.
\<close>

record geofence_status =
  gs_geofence_id :: nat
  gs_geofence_name :: string
  gs_is_within :: bool
  gs_description :: "string option"
  gs_distance_meters :: real
  gs_violation :: bool
  gs_severity :: "string option"

datatype cattle_geofence_status =
  Status_unknown
| Status (overall_status: string) (geofence_statuses: "geofence_status list")
    (violations: "geofence_status list")

text \<open>\<open>GeofenceService._should_cattle_be_in_geofence\<close>.\<close>

definition should_cattle_be_in_geofence :: "cattle \<Rightarrow> geofence \<Rightarrow> bool" where
  "should_cattle_be_in_geofence cattle geofence = True"

text \<open>
  The loop over the active geofences, with its two accumulators. An exception inside
  the \<open>try\<close> block is caught and the loop continues with the next geofence, nothing
  appended.
\<close>

fun check_geofences ::
  "(point \<Rightarrow> point list \<Rightarrow> bool option) \<Rightarrow> (point \<Rightarrow> point list \<Rightarrow> real option)
     \<Rightarrow> cattle \<Rightarrow> point \<Rightarrow> geofence list \<Rightarrow> geofence_status list \<times> bool
     \<Rightarrow> geofence_status list \<times> bool" where
  "check_geofences st_within st_distance cattle loc [] (statuses, within_any_geofence) =
     (statuses, within_any_geofence)"
| "check_geofences st_within st_distance cattle loc (geofence # rest)
       (statuses, within_any_geofence) =
     (case st_within loc (gf_boundary geofence) of
        None \<Rightarrow>
          check_geofences st_within st_distance cattle loc rest (statuses, within_any_geofence)
      | Some is_within \<Rightarrow>
          if \<not> is_within then
            (case st_distance loc (gf_boundary geofence) of
               None \<Rightarrow>
                 check_geofences st_within st_distance cattle loc rest
                   (statuses, within_any_geofence)
             | Some distance_degrees \<Rightarrow>
                 (let distance_meters =
                        (if distance_degrees \<noteq> 0 then distance_degrees * 111000 else 0);
                      should = should_cattle_be_in_geofence cattle geofence;
                      geofence_status =
                        \<lparr>gs_geofence_id = gf_id geofence,
                         gs_geofence_name = gf_name geofence,
                         gs_is_within = is_within,
                         gs_description = gf_description geofence,
                         gs_distance_meters = distance_meters,
                         gs_violation = should,
                         gs_severity =
                           (if should then
                              Some (calculate_violation_severity distance_meters
                                      (c_health_status cattle))
                            else None)\<rparr>
                  in check_geofences st_within st_distance cattle loc rest
                       (statuses @ [geofence_status], within_any_geofence)))
          else
            check_geofences st_within st_distance cattle loc rest
              (statuses @
                 [\<lparr>gs_geofence_id = gf_id geofence,
                   gs_geofence_name = gf_name geofence,
                   gs_is_within = is_within,
                   gs_description = gf_description geofence,
                   gs_distance_meters = 0,
                   gs_violation = False,
                   gs_severity = None\<rparr>],
               True))"

text \<open>
  \<open>GeofenceService.get_cattle_geofence_status\<close>; \<open>db_cattle\<close> is the lookup of the
  cattle table by id, \<open>db_geofences\<close> the geofence table.
\<close>

definition get_cattle_geofence_status ::
  "(point \<Rightarrow> point list \<Rightarrow> bool option) \<Rightarrow> (point \<Rightarrow> point list \<Rightarrow> real option)
     \<Rightarrow> (nat \<Rightarrow> cattle option) \<Rightarrow> geofence list \<Rightarrow> nat \<Rightarrow> cattle_geofence_status" where
  "get_cattle_geofence_status st_within st_distance db_cattle db_geofences cattle_id =
     (case db_cattle cattle_id of
        None \<Rightarrow> Status_unknown
      | Some cattle \<Rightarrow>
         (case c_location cattle of
            None \<Rightarrow> Status_unknown
          | Some loc \<Rightarrow>
             (let active_geofences = filter gf_is_active db_geofences;
                  (statuses, within_any_geofence) =
                     check_geofences st_within st_distance cattle loc active_geofences
                       ([], False);
                  overall =
                     (if within_any_geofence then ''within_geofence''
                      else if list_ex gs_violation statuses then ''violation''
                      else ''outside_safe_areas'')
              in Status overall statuses (filter gs_violation statuses))))"

text \<open>
  Every query of the loop answers for the active geofences: the containment query, and
  the distance query wherever the containment query says outside.
\<close>

definition queries_succeed ::
  "(point \<Rightarrow> point list \<Rightarrow> bool option) \<Rightarrow> (point \<Rightarrow> point list \<Rightarrow> real option)
     \<Rightarrow> point \<Rightarrow> geofence list \<Rightarrow> bool" where
  "queries_succeed st_within st_distance loc geofences =
     list_all (\<lambda>g. case st_within loc (gf_boundary g) of
                      None \<Rightarrow> False
                    | Some True \<Rightarrow> True
                    | Some False \<Rightarrow> st_distance loc (gf_boundary g) \<noteq> None) geofences"


subsection \<open>Heatmaps (models/cattle_history.py, services/heatmap_service.py)\<close>

text \<open>
  The history table is a list of rows. \<open>ST_SnapToGrid\<close> is a parameter
  \<open>st_snap_to_grid point size\<close>. The rows of a \<open>GROUP BY\<close> come in no specified
  order; the model lists each cell once, and no statement below depends on the order.
\<close>

record cattle_history =
  ch_cattle_id :: nat
  ch_location :: point
  ch_timestamp :: datetime

record heatmap_point =
  hp_lat :: real
  hp_lng :: real
  hp_intensity :: int
  hp_weight :: real

text \<open>\<open>CattleHistorySpatialQueries.get_history_heatmap_data\<close>.\<close>

definition get_history_heatmap_data ::
  "(point \<Rightarrow> real \<Rightarrow> point) \<Rightarrow> cattle_history list \<Rightarrow> datetime \<Rightarrow> datetime \<Rightarrow> real
     \<Rightarrow> heatmap_point list" where
  "get_history_heatmap_data st_snap_to_grid history start_time end_time grid_size_meters =
     (let grid_size_degrees = grid_size_meters / 111000;
          rows = filter (\<lambda>h. ch_timestamp h \<ge> start_time \<and> ch_timestamp h \<le> end_time) history;
          cells = map (\<lambda>h. st_snap_to_grid (ch_location h) grid_size_degrees) rows
      in map (\<lambda>cell. \<lparr>hp_lat = snd cell, hp_lng = fst cell,
                      hp_intensity = int (count_list cells cell),
                      hp_weight = real (count_list cells cell)\<rparr>)
           (remdups cells))"

text \<open>
  \<open>timedelta(hours=h)\<close>: a duration in whole microseconds, the nearest one to \<open>h\<close> hours,
  a tie going to the even count.
\<close>

definition timedelta_hours :: "real \<Rightarrow> int" where
  "timedelta_hours h = round_half_even (h * 3600000000)"

definition py_max :: "int list \<Rightarrow> int" where
  "py_max xs = fold max (tl xs) (hd xs)"

definition py_min :: "int list \<Rightarrow> int" where
  "py_min xs = fold min (tl xs) (hd xs)"

record bucket_statistics =
  bs_total_intensity :: int
  bs_max_intensity :: int
  bs_avg_intensity :: real
  bs_point_count :: nat

record temporal_bucket =
  tb_bucket_index :: nat
  tb_start_time :: datetime
  tb_end_time :: datetime
  tb_duration_minutes :: int
  tb_heatmap_points :: "heatmap_point list"
  tb_statistics :: bucket_statistics

text \<open>\<open>HeatmapService._get_temporal_heatmap\<close>; \<open>range(time_buckets)\<close> is empty for a
  negative count.\<close>

definition get_temporal_heatmap ::
  "(point \<Rightarrow> real \<Rightarrow> point) \<Rightarrow> cattle_history list \<Rightarrow> datetime \<Rightarrow> int \<Rightarrow> int \<Rightarrow> real
     \<Rightarrow> temporal_bucket list" where
  "get_temporal_heatmap st_snap_to_grid history start_time hours time_buckets grid_size_meters =
     (let bucket_duration = timedelta_hours (of_int hours / of_int time_buckets)
      in map (\<lambda>i.
           (let bucket_start = start_time + bucket_duration * int i;
                bucket_end = start_time + bucket_duration * (int i + 1);
                bucket_points = get_history_heatmap_data st_snap_to_grid history
                                  bucket_start bucket_end grid_size_meters;
                intensities = map hp_intensity bucket_points;
                stats =
                  (if bucket_points \<noteq> [] then
                     \<lparr>bs_total_intensity = sum_list intensities,
                      bs_max_intensity = py_max intensities,
                      bs_avg_intensity = of_int (sum_list intensities) / of_nat (length intensities),
                      bs_point_count = length bucket_points\<rparr>
                   else
                     \<lparr>bs_total_intensity = 0, bs_max_intensity = 0, bs_avg_intensity = 0,
                      bs_point_count = length bucket_points\<rparr>)
            in \<lparr>tb_bucket_index = i,
                tb_start_time = bucket_start,
                tb_end_time = bucket_end,
                tb_duration_minutes = py_int (of_int bucket_duration / 1000000 / 60),
                tb_heatmap_points = bucket_points,
                tb_statistics = stats\<rparr>))
         [0 ..< nat time_buckets])"

record intensity_statistics =
  is_min :: int
  is_max :: int
  is_avg :: real
  is_total :: nat

record heatmap_data =
  hm_analysis_period_hours :: int
  hm_grid_size_meters :: real
  hm_time_buckets :: "int option"
  hm_start_time :: datetime
  hm_heatmap_points :: "heatmap_point list"
  hm_intensity_statistics :: intensity_statistics
  hm_temporal_analysis :: "temporal_bucket list option"
  hm_total_points_analyzed :: nat

text \<open>
  \<open>HeatmapService.get_heatmap_data\<close>. \<open>now\<close> is the clock when the start of the window
  is computed, \<open>now_query\<close> the later reading that ends the window of the query.
\<close>

definition get_heatmap_data ::
  "(point \<Rightarrow> real \<Rightarrow> point) \<Rightarrow> cattle_history list \<Rightarrow> datetime \<Rightarrow> datetime
     \<Rightarrow> int \<Rightarrow> real \<Rightarrow> int option \<Rightarrow> heatmap_data" where
  "get_heatmap_data st_snap_to_grid history now now_query hours_back grid_size_meters
       time_buckets =
     (let start_time = now - timedelta_hours (of_int hours_back);
          heatmap_points = get_history_heatmap_data st_snap_to_grid history
                             start_time now_query grid_size_meters;
          intensity_stats =
            (if heatmap_points \<noteq> [] then
               (let intensities = map hp_intensity heatmap_points
                in \<lparr>is_min = py_min intensities,
                    is_max = py_max intensities,
                    is_avg = of_int (sum_list intensities) / of_nat (length intensities),
                    is_total = length intensities\<rparr>)
             else \<lparr>is_min = 0, is_max = 0, is_avg = 0, is_total = 0\<rparr>);
          temporal_analysis =
            (case time_buckets of
               None \<Rightarrow> None
             | Some n \<Rightarrow>
                 if n \<noteq> 0 then
                   Some (get_temporal_heatmap st_snap_to_grid history start_time hours_back n
                           grid_size_meters)
                 else None)
      in \<lparr>hm_analysis_period_hours = hours_back,
          hm_grid_size_meters = grid_size_meters,
          hm_time_buckets = time_buckets,
          hm_start_time = start_time,
          hm_heatmap_points = heatmap_points,
          hm_intensity_statistics = intensity_stats,
          hm_temporal_analysis = temporal_analysis,
          hm_total_points_analyzed = is_total intensity_stats\<rparr>)"

record period_comparison =
  pc_current_intensity :: int
  pc_previous_intensity :: int
  pc_intensity_change_percent :: real
  pc_current_activity_zones :: nat
  pc_previous_activity_zones :: nat
  pc_zones_change_percent :: real
  pc_insights :: "string list"

text \<open>\<open>HeatmapService.compare_periods\<close>.\<close>

definition compare_periods ::
  "(point \<Rightarrow> real \<Rightarrow> point) \<Rightarrow> cattle_history list \<Rightarrow> datetime \<Rightarrow> int \<Rightarrow> int
     \<Rightarrow> period_comparison" where
  "compare_periods st_snap_to_grid history now current_hours previous_hours =
     (let current_start = now - timedelta_hours (of_int current_hours);
          previous_end = current_start;
          previous_start = previous_end - timedelta_hours (of_int previous_hours);
          current_points = get_history_heatmap_data st_snap_to_grid history
                             current_start now 100;
          previous_points = get_history_heatmap_data st_snap_to_grid history
                              previous_start previous_end 100;
          current_intensity = sum_list (map hp_intensity current_points);
          previous_intensity = sum_list (map hp_intensity previous_points);
          current_activity_zones = length current_points;
          previous_activity_zones = length previous_points;
          intensity_change =
            (if previous_intensity > 0 then
               float_mul
                 (float_div (of_int (current_intensity - previous_intensity))
                    (of_int previous_intensity)) 100
             else 0);
          zones_change =
            (if previous_activity_zones > 0 then
               float_mul
                 (float_div (of_nat current_activity_zones - of_nat previous_activity_zones)
                    (of_nat previous_activity_zones)) 100
             else 0);
          insights =
            (if intensity_change > 20 then
               [''Significant increase in cattle activity detected'']
             else if intensity_change < -20 then
               [''Significant decrease in cattle activity detected'']
             else [''Cattle activity levels are relatively stable''])
      in \<lparr>pc_current_intensity = current_intensity,
          pc_previous_intensity = previous_intensity,
          pc_intensity_change_percent = intensity_change,
          pc_current_activity_zones = current_activity_zones,
          pc_previous_activity_zones = previous_activity_zones,
          pc_zones_change_percent = zones_change,
          pc_insights = insights\<rparr>)"

text \<open>The rows of the history table whose timestamp lies in a closed window.\<close>

definition samples_in :: "cattle_history list \<Rightarrow> datetime \<Rightarrow> datetime \<Rightarrow> cattle_history list" where
  "samples_in history start_time end_time =
     filter (\<lambda>h. start_time \<le> ch_timestamp h \<and> ch_timestamp h \<le> end_time) history"


subsection \<open>Movement simulation (services/cattle_service.py)\<close>

text \<open>
  The random source is explicit: \<open>random1\<close> and \<open>random2\<close> are the two draws of
  \<open>random()\<close> behind the two calls of \<open>uniform\<close>, each in [0, 1).
  \<open>st_within p wkt\<close> stands for \<open>db.query(ST_Within(p, polygon)).scalar()\<close>:
  \<open>None\<close> is a query that raised, and a NULL scalar, falsy where the source tests it,
  is \<open>Some False\<close>.
\<close>

definition uniform :: "real \<Rightarrow> real \<Rightarrow> real \<Rightarrow> real" where
  "uniform a b u = a + (b - a) * u"

text \<open>The \<open>i\<close>-th test point on the circle of one round of \<open>_constrain_to_polygon\<close>.\<close>

definition probe_point :: "real \<Rightarrow> real \<Rightarrow> real \<Rightarrow> nat \<Rightarrow> point" where
  "probe_point lng lat search_radius i =
     (let num_points = 16;
          angle = 2 * pi * real i / real num_points
      in (lng + search_radius * cos angle, lat + search_radius * sin angle))"

text \<open>
  The inner \<open>for\<close> loop: the first test point inside the polygon ends it; a query that
  raises leaves the whole function through its \<open>except\<close> clause.
\<close>

datatype probe_result = Found point | Not_found | Raised

fun probe_circle ::
  "(point \<Rightarrow> string \<Rightarrow> bool option) \<Rightarrow> string \<Rightarrow> real \<Rightarrow> real \<Rightarrow> real \<Rightarrow> nat list
     \<Rightarrow> probe_result" where
  "probe_circle st_within polygon_wkt lng lat search_radius [] = Not_found"
| "probe_circle st_within polygon_wkt lng lat search_radius (i # rest) =
     (let test = probe_point lng lat search_radius i
      in case st_within test polygon_wkt of
           None \<Rightarrow> Raised
         | Some True \<Rightarrow> Found test
         | Some False \<Rightarrow> probe_circle st_within polygon_wkt lng lat search_radius rest)"

text \<open>
  The \<open>while\<close> loop over the search radius. The result is \<open>None\<close> where the loop
  would not end; that it always ends from the radius 0.001 is proved below.
\<close>

partial_function (option) search_circles ::
  "(point \<Rightarrow> string \<Rightarrow> bool option) \<Rightarrow> string \<Rightarrow> real \<Rightarrow> real \<Rightarrow> real \<Rightarrow> real
     \<Rightarrow> point option" where
  "search_circles st_within polygon_wkt lng lat search_radius max_radius =
     (if search_radius \<le> max_radius then
        (case probe_circle st_within polygon_wkt lng lat search_radius [0 ..< 16] of
           Found best \<Rightarrow> Some best
         | Raised \<Rightarrow> Some (lng, lat)
         | Not_found \<Rightarrow>
             search_circles st_within polygon_wkt lng lat (search_radius * 2) max_radius)
      else Some (lng, lat))"

text \<open>\<open>CattleSimulationService._constrain_to_polygon\<close>.\<close>

definition constrain_to_polygon ::
  "(point \<Rightarrow> string \<Rightarrow> bool option) \<Rightarrow> real \<Rightarrow> real \<Rightarrow> string \<Rightarrow> real \<Rightarrow> point option" where
  "constrain_to_polygon st_within lng lat polygon_wkt max_search_degrees =
     (case st_within (lng, lat) polygon_wkt of
        None \<Rightarrow> Some (lng, lat)
      | Some True \<Rightarrow> Some (lng, lat)
      | Some False \<Rightarrow> search_circles st_within polygon_wkt lng lat 0.001 max_search_degrees)"

text \<open>
  \<open>CattleSimulationService.simulate_movement\<close>. The inner option is Python's
  \<open>Optional\<close> result, the outer one is as for \<open>search_circles\<close>.
\<close>

definition simulate_movement ::
  "(point \<Rightarrow> string \<Rightarrow> bool option) \<Rightarrow> cattle \<Rightarrow> string option \<Rightarrow> real \<Rightarrow> real \<Rightarrow> real
     \<Rightarrow> point option option" where
  "simulate_movement st_within cattle boundary_polygon max_drift_meters random1 random2 =
     (case get_coordinates cattle of
        None \<Rightarrow> Some None
      | Some (current_lng, current_lat) \<Rightarrow>
         (let max_drift_degrees = max_drift_meters / 111000;
              angle = uniform 0 (2 * pi) random1;
              distance_degrees = uniform (0.1 * max_drift_degrees) max_drift_degrees random2;
              new_lng = current_lng + distance_degrees * cos angle;
              new_lat = current_lat + distance_degrees * sin angle
          in case boundary_polygon of
               None \<Rightarrow> Some (Some (new_lng, new_lat))
             | Some polygon_wkt \<Rightarrow>
                 if polygon_wkt \<noteq> [] then
                   map_option Some
                     (constrain_to_polygon st_within new_lng new_lat polygon_wkt
                        (max_drift_degrees * 2))
                 else Some (Some (new_lng, new_lat))))"

subsection \<open>Example data\<close>

text \<open>Concrete inputs at which the theorems below are instantiated.\<close>

definition sample_at :: "datetime \<Rightarrow> cattle_history" where
  "sample_at t = \<lparr>ch_cattle_id = 1, ch_location = (0, 0), ch_timestamp = t\<rparr>"

text \<open>
  Nine samples over 48 hours: four at hour 12, one at hour 24 exactly, four at hour 36.
\<close>

definition period_history :: "cattle_history list" where
  "period_history =
     [sample_at 43200000000, sample_at 43200000000, sample_at 43200000000,
      sample_at 43200000000,
      sample_at 86400000000,
      sample_at 129600000000, sample_at 129600000000, sample_at 129600000000,
      sample_at 129600000000]"

definition boundary_sample :: cattle_history where
  "boundary_sample = \<lparr>ch_cattle_id = 1, ch_location = (0, 0), ch_timestamp = 3600000000\<rparr>"

definition paddock :: geofence where
  "paddock = \<lparr>gf_id = 1, gf_name = ''Paddock'',
              gf_boundary = [(-1, -1), (1, -1), (1, 1), (-1, 1), (-1, -1)],
              gf_is_active = True, gf_description = None, gf_updated_at = 0\<rparr>"

definition stray :: cattle where
  "stray = \<lparr>c_identifier = ''SAPI-001'', c_age = 3, c_health_status = ''Sakit'',
            c_location = Some (2, 2), c_last_update = 0\<rparr>"

definition cattle_table :: "nat \<Rightarrow> cattle option" where
  "cattle_table cattle_id = (if cattle_id = 1 then Some stray else None)"

definition within_unit_square :: "point \<Rightarrow> point list \<Rightarrow> bool option" where
  "within_unit_square loc ring =
     Some (-1 < fst loc \<and> fst loc < 1 \<and> -1 < snd loc \<and> snd loc < 1)"

definition distance_one_degree :: "point \<Rightarrow> point list \<Rightarrow> real option" where
  "distance_one_degree loc ring = Some 1"

definition distance_query_raises :: "point \<Rightarrow> point list \<Rightarrow> real option" where
  "distance_query_raises loc ring = None"

definition paddock_wkt :: string where
  "paddock_wkt = ''POLYGON((-1 -1, 1 -1, 1 1, -1 1, -1 -1))''"

definition within_paddock :: "point \<Rightarrow> string \<Rightarrow> bool option" where
  "within_paddock p polygon_wkt =
     Some (-1 < fst p \<and> fst p < 1 \<and> -1 < snd p \<and> snd p < 1)"

definition cow_at :: "point \<Rightarrow> cattle" where
  "cow_at p = \<lparr>c_identifier = ''SAPI-001'', c_age = 3, c_health_status = ''Sehat'',
              c_location = Some p, c_last_update = 0\<rparr>"

section \<open>Theorems\<close>

subsection \<open>Double-precision arithmetic\<close>












subsection \<open>Severity\<close>

text \<open>
  C1. For every distance (in particular every distance \<open>d \<ge> 0\<close>) and each of the three
  health categories, the severity computed by the code is the name of the level of the
  distance table escalated by the health category; a sick animal 150 m outside is HIGH.
\<close>

theorem severity_is_escalated_base:
  "calculate_violation_severity d (health_name h)
     = severity_name (spec_escalate h (spec_base_severity d))
   \<and> calculate_violation_severity 150 SAKIT = ''HIGH''"
  by (cases h) (simp_all add: calculate_violation_severity_def spec_base_severity_def SAKIT_def)

subsection \<open>Remediation actions\<close>

text \<open>
  C4 (as amended). Whatever the violation data, the action list contains the
  locate-and-verify and the check-for-injury actions; it contains each of the three
  search-team actions exactly when the distance exceeds 1000 m, each of the two
  handler actions exactly when the distance exceeds 500 m and is at most 1000 m, and the
  guide-back action exactly when the distance is at most 500 m. For a sick animal the
  urgent line is the first element and the veterinary contact the last; for an animal
  needing attention the two monitoring actions are the last two elements.
\<close>

theorem required_actions_by_distance_and_health:
  fixes violation_data :: violation_data
  defines "d \<equiv> dict_get (vd_violation_distance_meters violation_data) 0"
    and "h \<equiv> dict_get (vd_health_status violation_data) ''Sehat''"
    and "A \<equiv> get_required_actions violation_data"
  shows "''Locate and verify cattle position'' \<in> set A
     \<and> ''Check for physical injuries or distress'' \<in> set A
     \<and> (''Deploy search team immediately'' \<in> set A) = (d > 1000)
     \<and> (''Notify ranch manager'' \<in> set A) = (d > 1000)
     \<and> (''Check nearby roads or dangerous areas'' \<in> set A) = (d > 1000)
     \<and> (''Send ranch hand to retrieve'' \<in> set A) = (500 < d \<and> d \<le> 1000)
     \<and> (''Monitor movement pattern'' \<in> set A) = (500 < d \<and> d \<le> 1000)
     \<and> (''Guide cattle back to geofenced area'' \<in> set A) = (d \<le> 500)
     \<and> (h = ''Sakit'' \<longrightarrow>
          hd A = ''URGENT: Sick animal requires immediate attention''
          \<and> last A = ''Contact veterinarian if condition worsens'')
     \<and> (h = ''Perlu Perhatian'' \<longrightarrow>
          drop (length A - 2) A
            = [''Monitor health condition closely'', ''Provide additional care if needed''])"
  unfolding d_def h_def A_def get_required_actions_def Let_def
  by (intro conjI; simp)

theorem required_actions_by_distance_and_health_witness:
  "(let vd = \<lparr>vd_severity = Some ''HIGH'', vd_health_status = Some ''Sakit'',
               vd_violation_distance_meters = Some 750\<rparr>;
        A = get_required_actions vd
    in ''Send ranch hand to retrieve'' \<in> set A
       \<and> ''Guide cattle back to geofenced area'' \<notin> set A
       \<and> hd A = ''URGENT: Sick animal requires immediate attention''
       \<and> last A = ''Contact veterinarian if condition worsens'')
   \<and> drop (length (get_required_actions
                \<lparr>vd_severity = None, vd_health_status = Some ''Perlu Perhatian'',
                 vd_violation_distance_meters = Some 10\<rparr>) - 2)
        (get_required_actions
                \<lparr>vd_severity = None, vd_health_status = Some ''Perlu Perhatian'',
                 vd_violation_distance_meters = Some 10\<rparr>)
      = [''Monitor health condition closely'', ''Provide additional care if needed'']"
  using required_actions_by_distance_and_health
          [of "\<lparr>vd_severity = Some ''HIGH'', vd_health_status = Some ''Sakit'',
               vd_violation_distance_meters = Some 750\<rparr>"]
        required_actions_by_distance_and_health
          [of "\<lparr>vd_severity = None, vd_health_status = Some ''Perlu Perhatian'',
               vd_violation_distance_meters = Some 10\<rparr>"]
  by (simp add: dict_get_def Let_def)

text \<open>
  At exactly 500 m the code takes the guide-back branch (its test is \<open>distance > 500\<close>),
  although \<open>500 \<le> d \<le> 1000\<close> holds there.
\<close>

theorem required_actions_at_500_counterexample:
  "''Send ranch hand to retrieve''
     \<notin> set (get_required_actions
              \<lparr>vd_severity = Some ''HIGH'', vd_health_status = Some ''Sehat'',
               vd_violation_distance_meters = Some 500\<rparr>)
   \<and> ''Guide cattle back to geofenced area''
     \<in> set (get_required_actions
              \<lparr>vd_severity = Some ''HIGH'', vd_health_status = Some ''Sehat'',
               vd_violation_distance_meters = Some 500\<rparr>)
   \<and> (500::real) \<le> 500 \<and> (500::real) \<le> 1000"
  by (simp add: get_required_actions_def dict_get_def Let_def)

subsection \<open>Estimated return time\<close>




subsection \<open>Boundary rings\<close>

lemma isl_ValueError: "isl r \<Longrightarrow> \<exists>msg. r = Inl (ValueError msg)"
proof -
  assume "isl r"
  then obtain e where "r = Inl e" by (auto simp: isl_def)
  then show ?thesis by (cases e) simp
qed

lemma validate_coordinate_ranges_None:
  "validate_coordinate_ranges cs = None \<longleftrightarrow> \<not> list_ex bad_point cs"
  by (induction cs) (auto simp: bad_point_def Let_def)

lemma set_boundary_refused:
  "refused_ring cs \<Longrightarrow> \<exists>msg. set_boundary_from_coordinates self cs now = Inl (ValueError msg)"
proof -
  assume r: "refused_ring cs"
  show ?thesis
  proof (cases "length cs < 3")
    case True
    then show ?thesis by (simp add: set_boundary_from_coordinates_def)
  next
    case False
    with r have "list_ex bad_point cs" by (simp add: refused_ring_def)
    then have "validate_coordinate_ranges cs \<noteq> None"
      by (simp add: validate_coordinate_ranges_None)
    then obtain e where "validate_coordinate_ranges cs = Some e" by auto
    moreover obtain msg where "e = ValueError msg" by (cases e)
    ultimately show ?thesis using False by (simp add: set_boundary_from_coordinates_def)
  qed
qed

lemma set_boundary_accepted:
  assumes "set_boundary_from_coordinates self cs now = Inr g"
  shows "\<not> refused_ring cs" and "gf_boundary g = closed_ring_of cs"
    and "hd (gf_boundary g) = last (gf_boundary g)" and "3 \<le> length (gf_boundary g)"
proof -
  from assms have len: "\<not> length cs < 3" and v: "validate_coordinate_ranges cs = None"
    by (auto simp: set_boundary_from_coordinates_def split: if_splits option.splits)
  from len have ne: "cs \<noteq> []" by auto
  from v len show "\<not> refused_ring cs"
    by (simp add: refused_ring_def validate_coordinate_ranges_None)
  from assms len v show b: "gf_boundary g = closed_ring_of cs"
    by (auto simp: set_boundary_from_coordinates_def closed_ring_of_def Let_def)
  show "hd (gf_boundary g) = last (gf_boundary g)"
    using ne by (auto simp: b closed_ring_of_def hd_map last_map)
  show "3 \<le> length (gf_boundary g)"
    using len by (auto simp: b closed_ring_of_def)
qed

text \<open>
  C8 (as amended). Creating a geofence, updating its details with new coordinates and
  setting the boundary directly all raise a \<open>ValueError\<close> when the coordinate list has
  fewer than three points (repetitions counted), or holds a point that is not a pair or
  whose longitude is outside [-180, 180] or latitude outside [-90, 90]. Whenever they
  accept the list, the stored ring is the input with its first vertex appended unless
  the input already ends with it, so the stored ring is closed.
\<close>

theorem boundary_refused_or_closed:
  "(refused_ring cs \<longrightarrow>
      (\<exists>msg. set_boundary_from_coordinates self cs now = Inl (ValueError msg))
      \<and> (\<exists>msg. Geofence_init i name cs descr act now = Inl (ValueError msg))
      \<and> (\<exists>msg. update_details self new_name new_descr (Some cs) now = Inl (ValueError msg)))
   \<and> (\<forall>g. set_boundary_from_coordinates self cs now = Inr g
            \<or> Geofence_init i name cs descr act now = Inr g
            \<or> update_details self new_name new_descr (Some cs) now = Inr g
        \<longrightarrow> \<not> refused_ring cs \<and> gf_boundary g = closed_ring_of cs
            \<and> hd (gf_boundary g) = last (gf_boundary g))"
proof (intro conjI impI allI)
  assume r: "refused_ring cs"
  show "\<exists>msg. set_boundary_from_coordinates self cs now = Inl (ValueError msg)"
    using r by (rule set_boundary_refused)
  have refused: "isl (set_boundary_from_coordinates s cs t)" for s t
    using set_boundary_refused [OF r, of s t] by auto
  have "isl (Geofence_init i name cs descr act now)"
    using refused by (auto simp: Geofence_init_def split: sum.splits)
  then show "\<exists>msg. Geofence_init i name cs descr act now = Inl (ValueError msg)"
    by (rule isl_ValueError)
  have nr: "set_boundary_from_coordinates s cs t \<noteq> Inr g'" for s t g'
    using refused [of s t] by auto
  have "isl (update_details self new_name new_descr (Some cs) now)"
    by (auto simp: update_details_def Let_def nr split: sum.splits option.splits)
  then show "\<exists>msg. update_details self new_name new_descr (Some cs) now = Inl (ValueError msg)"
    by (rule isl_ValueError)
next
  fix g
  assume a: "set_boundary_from_coordinates self cs now = Inr g
            \<or> Geofence_init i name cs descr act now = Inr g
            \<or> update_details self new_name new_descr (Some cs) now = Inr g"
  have "\<exists>s t g'. set_boundary_from_coordinates s cs t = Inr g' \<and> gf_boundary g' = gf_boundary g"
    using a
  proof (elim disjE)
    assume "set_boundary_from_coordinates self cs now = Inr g"
    then show ?thesis by blast
  next
    assume "Geofence_init i name cs descr act now = Inr g"
    then show ?thesis
      by (auto simp: Geofence_init_def split: sum.splits)
  next
    assume "update_details self new_name new_descr (Some cs) now = Inr g"
    then obtain s g' where "set_boundary_from_coordinates s cs now = Inr g'"
      and "g = g'\<lparr>gf_updated_at := now\<rparr>"
      by (auto simp: update_details_def Let_def split: sum.splits option.splits)
    then show ?thesis by auto
  qed
  then obtain s t g' where
    s: "set_boundary_from_coordinates s cs t = Inr g'" and b: "gf_boundary g' = gf_boundary g"
    by blast
  show "\<not> refused_ring cs" using set_boundary_accepted(1) [OF s] .
  show "gf_boundary g = closed_ring_of cs" using set_boundary_accepted(2) [OF s] b by simp
  show "hd (gf_boundary g) = last (gf_boundary g)" using set_boundary_accepted(3) [OF s] b by simp
qed

theorem boundary_refused_or_closed_witness:
  "refused_ring [[0, 0], [1, 0]]
   \<and> (\<exists>msg. set_boundary_from_coordinates
               \<lparr>gf_id = 1, gf_name = ''Paddock'', gf_boundary = [], gf_is_active = True,
                gf_description = None, gf_updated_at = 0\<rparr>
               [[0, 0], [1, 0]] 7 = Inl (ValueError msg))
   \<and> set_boundary_from_coordinates
         \<lparr>gf_id = 1, gf_name = ''Paddock'', gf_boundary = [], gf_is_active = True,
          gf_description = None, gf_updated_at = 0\<rparr>
         [[0, 0], [4, 0], [4, 3]] 7
       = Inr \<lparr>gf_id = 1, gf_name = ''Paddock'',
              gf_boundary = [(0, 0), (4, 0), (4, 3), (0, 0)], gf_is_active = True,
              gf_description = None, gf_updated_at = 7\<rparr>
   \<and> \<not> refused_ring [[0, 0], [4, 0], [4, 3]]
   \<and> closed_ring_of [[0, 0], [4, 0], [4, 3]] = [(0, 0), (4, 0), (4, 3), (0, 0)]"
proof -
  let ?g = "\<lparr>gf_id = 1, gf_name = ''Paddock'', gf_boundary = [], gf_is_active = True,
            gf_description = None, gf_updated_at = 0\<rparr>"
  let ?g' = "\<lparr>gf_id = 1, gf_name = ''Paddock'',
              gf_boundary = [(0, 0), (4, 0), (4, 3), (0, 0)], gf_is_active = True,
              gf_description = None, gf_updated_at = 7\<rparr>"
  have r: "refused_ring [[0, 0], [1, 0]]"
    by (simp add: refused_ring_def)
  have a: "set_boundary_from_coordinates ?g [[0, 0], [4, 0], [4, 3]] 7 = Inr ?g'"
    by (simp add: set_boundary_from_coordinates_def bad_point_def Let_def)
  from r boundary_refused_or_closed [of "[[0, 0], [1, 0]]" ?g 7]
  have "\<exists>msg. set_boundary_from_coordinates ?g [[0, 0], [1, 0]] 7 = Inl (ValueError msg)"
    by blast
  moreover from a boundary_refused_or_closed [of "[[0, 0], [4, 0], [4, 3]]" ?g 7]
  have "\<not> refused_ring [[0, 0], [4, 0], [4, 3]]
        \<and> gf_boundary ?g' = closed_ring_of [[0, 0], [4, 0], [4, 3]]"
    by blast
  ultimately show ?thesis using r a by simp
qed

text \<open>
  A list of four points that holds only two distinct vertices is accepted, and stored
  with its first vertex appended.
\<close>

theorem boundary_two_distinct_vertices_counterexample:
  "card (set [[0, 0], [1, 1], [0, 0], [1, 1 :: real]]) = 2
   \<and> set_boundary_from_coordinates
         \<lparr>gf_id = 1, gf_name = ''Paddock'', gf_boundary = [], gf_is_active = True,
          gf_description = None, gf_updated_at = 0\<rparr>
         [[0, 0], [1, 1], [0, 0], [1, 1]] 7
       = Inr \<lparr>gf_id = 1, gf_name = ''Paddock'',
              gf_boundary = [(0, 0), (1, 1), (0, 0), (1, 1), (0, 0)], gf_is_active = True,
              gf_description = None, gf_updated_at = 7\<rparr>"
proof -
  have "card (set [[0, 0], [1, 1], [0, 0], [1, 1 :: real]])
          = length (remdups [[0, 0], [1, 1], [0, 0], [1, 1 :: real]])"
    by (rule card_set)
  then have "card (set [[0, 0], [1, 1], [0, 0], [1, 1 :: real]]) = 2"
    by simp
  then show ?thesis
    by (simp add: set_boundary_from_coordinates_def Let_def)
qed

subsection \<open>Health status of an entity\<close>

lemma update_health_status_rejects:
  "new_status \<notin> {''Sehat'', ''Perlu Perhatian'', ''Sakit''}
   \<Longrightarrow> update_health_status self new_status now = Inl (ValueError ''Invalid health status'')"
  by (simp add: update_health_status_def SEHAT_def PERLU_PERHATIAN_def SAKIT_def)

text \<open>
  C9. The constructor stores a health status outside the three categories on the new
  entity without any error, while \<open>update_health_status\<close> refuses the same value.
\<close>

theorem cattle_init_stores_unknown_health:
  "''Unknown'' \<notin> set [SEHAT, PERLU_PERHATIAN, SAKIT]
   \<and> Cattle_init ''SAPI-001'' 3 ''Unknown'' (Some (-8.5)) (Some 117.4) 0
       = Inr \<lparr>c_identifier = ''SAPI-001'', c_age = 3, c_health_status = ''Unknown'',
              c_location = Some (117.4, -8.5), c_last_update = 0\<rparr>
   \<and> update_health_status
         \<lparr>c_identifier = ''SAPI-001'', c_age = 3, c_health_status = ''Sehat'',
          c_location = Some (117.4, -8.5), c_last_update = 0\<rparr> ''Unknown'' 1
       = Inl (ValueError ''Invalid health status'')"
  by (simp add: Cattle_init_def validate_identifier_def validate_age_def set_location_def
        update_health_status_def py_strip_def py_upper_def is_space_def Let_def
        SEHAT_def PERLU_PERHATIAN_def SAKIT_def)

subsection \<open>Per-entity geofence status\<close>

lemma check_geofences_flagged:
  assumes "queries_succeed W D loc gs"
    and "gs \<noteq> [] \<or> w \<or> list_ex gs_violation sts"
    and "check_geofences W D c loc gs (sts, w) = (sts', w')"
  shows "w' \<or> list_ex gs_violation sts'"
  using assms
proof (induction gs arbitrary: sts w)
  case Nil
  then show ?case by simp
next
  case (Cons g gs)
  from Cons.prems(1) have rest: "queries_succeed W D loc gs"
    by (simp add: queries_succeed_def)
  from Cons.prems(1) obtain b where b: "W loc (gf_boundary g) = Some b"
    by (auto simp: queries_succeed_def split: option.splits)
  show ?case
  proof (cases b)
    case True
    with b Cons.prems(3) show ?thesis
      using Cons.IH [OF rest, of True] by simp
  next
    case False
    with b Cons.prems(1) obtain dd where dd: "D loc (gf_boundary g) = Some dd"
      by (auto simp: queries_succeed_def split: option.splits)
    with b False Cons.prems(3) have
      "\<exists>st. gs_violation st \<and> check_geofences W D c loc gs (sts @ [st], w) = (sts', w')"
      apply (simp add: Let_def should_cattle_be_in_geofence_def)
      apply (rule exI, rule conjI)
       prefer 2
       apply assumption
      apply simp
      done
    then obtain st where v: "gs_violation st"
      and step: "check_geofences W D c loc gs (sts @ [st], w) = (sts', w')"
      by blast
    from v have "gs \<noteq> [] \<or> w \<or> list_ex gs_violation (sts @ [st])"
      by simp
    then show ?thesis
      using Cons.IH [OF rest _ step] by blast
  qed
qed

text \<open>
  C10 (as amended). For an entity that exists and has a location, if there is an active
  boundary and, for every active boundary, the containment query answers and the
  distance query answers wherever the entity is outside, then the overall status is
  \<open>within_geofence\<close> or \<open>violation\<close>, never \<open>outside_safe_areas\<close>.
\<close>

theorem status_never_outside_safe_areas:
  assumes "db_cattle cattle_id = Some c" and "c_location c = Some loc"
    and "filter gf_is_active db_geofences \<noteq> []"
    and "queries_succeed W D loc (filter gf_is_active db_geofences)"
  shows "overall_status (get_cattle_geofence_status W D db_cattle db_geofences cattle_id)
           \<in> {''within_geofence'', ''violation''}"
proof -
  obtain sts w where r:
    "check_geofences W D c loc (filter gf_is_active db_geofences) ([], False) = (sts, w)"
    by (cases "check_geofences W D c loc (filter gf_is_active db_geofences) ([], False)")
  have "w \<or> list_ex gs_violation sts"
    using check_geofences_flagged [OF assms(4) _ r] assms(3) by simp
  then show ?thesis
    using assms(1,2) r by (auto simp: get_cattle_geofence_status_def Let_def)
qed

theorem status_never_outside_safe_areas_witness:
  "cattle_table 1 = Some stray \<and> c_location stray = Some (2, 2)
   \<and> filter gf_is_active [paddock] \<noteq> []
   \<and> queries_succeed within_unit_square distance_one_degree (2, 2)
        (filter gf_is_active [paddock])
   \<and> overall_status (get_cattle_geofence_status within_unit_square distance_one_degree
        cattle_table [paddock] 1) \<in> {''within_geofence'', ''violation''}"
proof -
  have 1: "cattle_table 1 = Some stray" by (simp add: cattle_table_def)
  have 2: "c_location stray = Some (2, 2)" by (simp add: stray_def)
  have 3: "filter gf_is_active [paddock] \<noteq> []" by (simp add: paddock_def)
  have 4: "queries_succeed within_unit_square distance_one_degree (2, 2)
             (filter gf_is_active [paddock])"
    by (simp add: queries_succeed_def within_unit_square_def distance_one_degree_def paddock_def)
  from 1 2 3 4
    status_never_outside_safe_areas
      [where db_cattle = cattle_table and cattle_id = 1 and db_geofences = "[paddock]",
       OF 1 2 3 4]
  show ?thesis by simp
qed

text \<open>
  With one active boundary, the entity outside it and the distance query raising, the
  containment query has answered, nothing is appended, and the status is
  \<open>outside_safe_areas\<close>.
\<close>

theorem status_outside_safe_areas_counterexample:
  "cattle_table 1 = Some stray \<and> c_location stray = Some (2, 2)
   \<and> filter gf_is_active [paddock] = [paddock]
   \<and> within_unit_square (2, 2) (gf_boundary paddock) = Some False
   \<and> get_cattle_geofence_status within_unit_square distance_query_raises cattle_table
        [paddock] 1 = Status ''outside_safe_areas'' [] []"
  by (simp add: get_cattle_geofence_status_def cattle_table_def stray_def paddock_def
        within_unit_square_def distance_query_raises_def)

subsection \<open>Heatmaps\<close>

text \<open>The aggregate intensity of a window is the number of its samples.\<close>

lemma heatmap_total_intensity:
  "sum_list (map hp_intensity (get_history_heatmap_data snap history a b g))
     = int (length (samples_in history a b))"
proof -
  let ?cells = "map (\<lambda>h. snap (ch_location h) (g / 111000)) (samples_in history a b)"
  have "sum_list (map (\<lambda>c. int (count_list ?cells c)) (remdups ?cells))
          = (\<Sum>c\<in>set ?cells. int (count_list ?cells c))"
    using sum_list_distinct_conv_sum_set [of "remdups ?cells" "\<lambda>c. int (count_list ?cells c)"]
    by simp
  also have "\<dots> = int (\<Sum>c\<in>set ?cells. count_list ?cells c)"
    by simp
  also have "\<dots> = int (length ?cells)"
    using sum_count_set [of ?cells "set ?cells"] by simp
  finally show ?thesis
    by (simp add: get_history_heatmap_data_def samples_in_def Let_def comp_def)
qed

lemma heatmap_empty_iff:
  "get_history_heatmap_data snap history a b g = [] \<longleftrightarrow> samples_in history a b = []"
  by (simp add: get_history_heatmap_data_def samples_in_def Let_def)

lemma timedelta_hours_int: "timedelta_hours (of_int h) = h * 3600000000"
proof -
  have "(of_int h :: real) * 3600000000 = of_int (h * 3600000000)" by simp
  then show ?thesis
    unfolding timedelta_hours_def round_half_even_def Let_def
    by (simp only: floor_of_int) simp
qed

text \<open>
  C7. When no sample of the history lies in the window of the query, the heatmap has no
  cells and its intensity statistics are the explicit zeros; the function returns this
  value.
\<close>

theorem empty_window_zero_statistics:
  assumes "samples_in history (now - hours_back * 3600000000) now_query = []"
  shows "hm_heatmap_points (get_heatmap_data snap history now now_query hours_back g tb) = []
     \<and> hm_intensity_statistics (get_heatmap_data snap history now now_query hours_back g tb)
         = \<lparr>is_min = 0, is_max = 0, is_avg = 0, is_total = 0\<rparr>
     \<and> hm_total_points_analyzed (get_heatmap_data snap history now now_query hours_back g tb) = 0"
proof -
  have "get_history_heatmap_data snap history
               (now - timedelta_hours (of_int hours_back)) now_query g = []"
    using assms by (simp add: heatmap_empty_iff timedelta_hours_int)
  then show ?thesis
    by (simp add: get_heatmap_data_def Let_def)
qed

theorem empty_window_zero_statistics_witness:
  "samples_in [boundary_sample] (100000000000 - 24 * 3600000000) 100000000001 = []
   \<and> hm_heatmap_points
       (get_heatmap_data (\<lambda>p g. p) [boundary_sample] 100000000000 100000000001 24 100 None) = []
   \<and> hm_intensity_statistics
       (get_heatmap_data (\<lambda>p g. p) [boundary_sample] 100000000000 100000000001 24 100 None)
       = \<lparr>is_min = 0, is_max = 0, is_avg = 0, is_total = 0\<rparr>"
proof -
  have e: "samples_in [boundary_sample] (100000000000 - 24 * 3600000000) 100000000001 = []"
    by (simp add: samples_in_def boundary_sample_def)
  from e empty_window_zero_statistics [OF e, of "\<lambda>p g. p" 100 None]
  show ?thesis by simp
qed

text \<open>
  C6. With the clock at hour 48 and two periods of 24 hours, the previous window is
  [hour 0, hour 24] and the current one [hour 24, hour 48], both closed. Of the nine
  samples of \<open>period_history\<close> four lie before hour 24, one at hour 24 and four after
  it. The comparison counts the sample at hour 24 in both windows: it reports the
  intensities 5 and 5, a change of 0 and stable activity. Disjoint windows that give
  the instant of hour 24 to the current one hold 4 and 5 samples.
\<close>

theorem boundary_sample_counted_in_both_periods:
  "compare_periods (\<lambda>p g. p) period_history 172800000000 24 24
     = \<lparr>pc_current_intensity = 5, pc_previous_intensity = 5,
        pc_intensity_change_percent = 0,
        pc_current_activity_zones = 1, pc_previous_activity_zones = 1,
        pc_zones_change_percent = 0,
        pc_insights = [''Cattle activity levels are relatively stable'']\<rparr>
   \<and> length (filter (\<lambda>h. 0 \<le> ch_timestamp h \<and> ch_timestamp h < 86400000000)
               period_history) = 4
   \<and> length (filter (\<lambda>h. 86400000000 \<le> ch_timestamp h \<and> ch_timestamp h \<le> 172800000000)
               period_history) = 5"
proof -
  have z: "float_div 0 x = 0" "float_mul 0 x = 0" for x
    by (simp_all add: float_div_def float_mul_def round_double_def)
  have t: "timedelta_hours 24 = 86400000000"
    using timedelta_hours_int [of 24] by simp
  have cur: "get_history_heatmap_data (\<lambda>p g. p) period_history 86400000000 172800000000 100
      = [\<lparr>hp_lat = 0, hp_lng = 0, hp_intensity = 5, hp_weight = 5\<rparr>]"
    by (simp add: get_history_heatmap_data_def period_history_def sample_at_def)
  have prev: "get_history_heatmap_data (\<lambda>p g. p) period_history 0 86400000000 100
      = [\<lparr>hp_lat = 0, hp_lng = 0, hp_intensity = 5, hp_weight = 5\<rparr>]"
    by (simp add: get_history_heatmap_data_def period_history_def sample_at_def)
  have c: "compare_periods (\<lambda>p g. p) period_history 172800000000 24 24
     = \<lparr>pc_current_intensity = 5, pc_previous_intensity = 5,
        pc_intensity_change_percent = 0,
        pc_current_activity_zones = 1, pc_previous_activity_zones = 1,
        pc_zones_change_percent = 0,
        pc_insights = [''Cattle activity levels are relatively stable'']\<rparr>"
    unfolding compare_periods_def Let_def
    by (simp add: t cur prev z)
  have d: "length (filter (\<lambda>h. 0 \<le> ch_timestamp h \<and> ch_timestamp h < 86400000000)
               period_history) = 4"
      "length (filter (\<lambda>h. 86400000000 \<le> ch_timestamp h \<and> ch_timestamp h \<le> 172800000000)
               period_history) = 5"
    by (simp_all add: period_history_def sample_at_def)
  from c d show ?thesis by simp
qed

lemma adjacent_windows_double_count:
  "length (samples_in history a b) + length (samples_in history b c)
     = length (samples_in history a c)
       + length (filter (\<lambda>h. ch_timestamp h = b) history)"
  if "a \<le> b" and "b \<le> c"
  using that by (induction history) (auto simp: samples_in_def)

lemma bucket_duration_one_hour: "timedelta_hours (of_int 2 / of_int 2) = 3600000000"
  by (simp add: timedelta_hours_def round_half_even_def)

text \<open>
  C2. A two-hour window from time 0 is divided into two buckets of one hour, and the
  history holds one sample, at exactly the boundary between them. Each of the two
  buckets counts it (intensity 1 in each), while the single window over the combined
  range counts it once.
\<close>

theorem boundary_sample_counted_in_both_buckets:
  "map (\<lambda>b. (tb_start_time b, tb_end_time b, map hp_intensity (tb_heatmap_points b)))
       (get_temporal_heatmap (\<lambda>p g. p) [boundary_sample] 0 2 2 100)
     = [(0, 3600000000, [1]), (3600000000, 7200000000, [1])]
   \<and> map hp_intensity (get_history_heatmap_data (\<lambda>p g. p) [boundary_sample] 0 7200000000 100)
     = [1]"
proof -
  have u: "[0 ..< nat 2] = [0, 1]"
    by (simp add: upt_rec)
  show ?thesis
    unfolding get_temporal_heatmap_def bucket_duration_one_hour u
    by (simp add: get_history_heatmap_data_def boundary_sample_def Let_def)
qed

subsection \<open>Movement simulation\<close>

text \<open>The search loop ends for every cap, so \<open>_constrain_to_polygon\<close> returns.\<close>

lemma search_circles_returns_aux:
  "max_radius < r * 2 ^ k \<Longrightarrow> \<exists>p. search_circles W poly lng lat r max_radius = Some p"
proof (induction k arbitrary: r)
  case 0
  then show ?case by (subst search_circles.simps) simp
next
  case (Suc k)
  then have "max_radius < (r * 2) * 2 ^ k" by (simp add: mult.assoc)
  from Suc.IH [OF this] obtain p where
    "search_circles W poly lng lat (r * 2) max_radius = Some p" by blast
  then show ?case
    by (subst search_circles.simps) (simp split: probe_result.splits)
qed

lemma search_circles_returns:
  assumes "0 < r"
  shows "\<exists>p. search_circles W poly lng lat r max_radius = Some p"
proof -
  obtain k where "max_radius / r < 2 ^ k"
    using real_arch_pow [of 2 "max_radius / r"] by auto
  then have "max_radius < r * 2 ^ k"
    using assms by (simp add: pos_divide_less_eq mult.commute)
  then show ?thesis by (rule search_circles_returns_aux)
qed

lemma constrain_to_polygon_returns:
  "\<exists>p. constrain_to_polygon W lng lat poly max_search = Some p"
  using search_circles_returns [of "0.001" W poly lng lat max_search]
  by (auto simp: constrain_to_polygon_def split: option.splits bool.splits)

lemma get_coordinates_None: "get_coordinates cattle = None"
  by (simp add: get_coordinates_def py_float_def split: option.splits)

text \<open>
  C3. \<open>simulate_movement\<close> starts from \<open>cattle.get_coordinates()\<close>, which is \<open>None\<close>
  for every entity, with or without a location. So the step returns \<open>None\<close> whatever
  the boundary, the maximal drift and the random draws: it projects no point, probes
  no circle and returns no point. In particular, for an entity at (0, 0), inside the
  ring of the paddock, and a maximal drift of 0, the step returns \<open>None\<close> and not a
  point inside the ring.
\<close>

theorem simulation_step_returns_no_point:
  "simulate_movement st_within cattle boundary_polygon max_drift_meters random1 random2
     = Some None
   \<and> c_location (cow_at (0, 0)) = Some (0, 0)
   \<and> within_paddock (0, 0) paddock_wkt = Some True
   \<and> simulate_movement within_paddock (cow_at (0, 0)) (Some paddock_wkt) 0 random1 random2
       = Some None"
  by (simp add: simulate_movement_def get_coordinates_None cow_at_def within_paddock_def)

end
